theory Spec2Isabelle
  imports Complex_Main
begin

section \<open>EAST box decoding and ROI extraction (src/services/tesseractUtils.py, src/main.py)\<close>

text \<open>
  A shallow embedding of the geometry decoding, candidate collection and ROI extraction
  of \<^verbatim>\<open>tesseractUtils.py\<close> and of the part of \<^verbatim>\<open>main\<close> that drives them.

  Numbers. NumPy \<^verbatim>\<open>float32\<close> and Python \<^verbatim>\<open>float\<close> values are modelled as
  \<^typ>\<open>real\<close>: every arithmetic operation is exact, rounding error and the special values
  (NaN, infinities) are outside the model. Python \<^verbatim>\<open>int\<close> is \<^typ>\<open>int\<close>.

  Exceptions are values of \<open>error\<close>; a function that may raise returns \<open>error + 'a\<close>.
\<close>

subsection \<open>Errors, conversion to int, indexing\<close>

datatype error = IndexError | UnboundLocalError | CvError

text \<open>Python's \<^verbatim>\<open>int(f)\<close> on a float: the fractional part is discarded (toward zero).\<close>

definition py_int :: "real \<Rightarrow> int" where
  "py_int r = (if 0 \<le> r then \<lfloor>r\<rfloor> else \<lceil>r\<rceil>)"

text \<open>
  \<^verbatim>\<open>a[i]\<close> for an index produced by \<^verbatim>\<open>range\<close> or a literal (never negative):
  out of range raises IndexError.
\<close>

definition index :: "'a list \<Rightarrow> nat \<Rightarrow> error + 'a" where
  "index xs i = (if i < length xs then Inr (xs ! i) else Inl IndexError)"

text \<open>A box is the tuple \<^verbatim>\<open>(startX, startY, endX, endY)\<close>.\<close>

type_synonym box = "int \<times> int \<times> int \<times> int"

text \<open>
  The network's outputs: \<^verbatim>\<open>scores\<close> has shape (1, 1, rows, columns) and
  \<^verbatim>\<open>geometry\<close> shape (1, 5, rows, columns); both are nested lists here.
\<close>

type_synonym tensor4 = "real list list list list"

subsection \<open>geometryData (lines 188-205)\<close>

text \<open>
  \<^verbatim>\<open>geometry[0, c, y]\<close> for c = 0..4, read in the source's order; the result is
  \<^verbatim>\<open>(angleData, xData0, xData1, xData2, xData3)\<close>.
\<close>

definition index3 :: "tensor4 \<Rightarrow> nat \<Rightarrow> nat \<Rightarrow> nat \<Rightarrow> error + real list" where
  "index3 a i j k =
     (case index a i of Inl e \<Rightarrow> Inl e
      | Inr p \<Rightarrow> (case index p j of Inl e \<Rightarrow> Inl e
         | Inr q \<Rightarrow> index q k))"

definition geometryData ::
  "tensor4 \<Rightarrow> nat \<Rightarrow> error + (real list \<times> real list \<times> real list \<times> real list \<times> real list)" where
  "geometryData geometry y =
     (case index3 geometry 0 0 y of Inl e \<Rightarrow> Inl e
      | Inr xData0 \<Rightarrow> (case index3 geometry 0 1 y of Inl e \<Rightarrow> Inl e
      | Inr xData1 \<Rightarrow> (case index3 geometry 0 2 y of Inl e \<Rightarrow> Inl e
      | Inr xData2 \<Rightarrow> (case index3 geometry 0 3 y of Inl e \<Rightarrow> Inl e
      | Inr xData3 \<Rightarrow> (case index3 geometry 0 4 y of Inl e \<Rightarrow> Inl e
      | Inr angleData \<Rightarrow> Inr (angleData, xData0, xData1, xData2, xData3))))))"

subsection \<open>geometryCalculations (lines 207-233)\<close>

definition geometryCalculations ::
  "real list \<Rightarrow> real list \<Rightarrow> real list \<Rightarrow> real list \<Rightarrow> real list \<Rightarrow> nat \<Rightarrow> nat \<Rightarrow> error + box" where
  "geometryCalculations angleData xData0 xData1 xData2 xData3 x y =
     (let offsetX = real x * 4; offsetY = real y * 4 in
      case index angleData x of Inl e \<Rightarrow> Inl e
      | Inr angle \<Rightarrow>
     (let c = cos angle; s = sin angle in
      case index xData0 x of Inl e \<Rightarrow> Inl e
      | Inr d0 \<Rightarrow> (case index xData2 x of Inl e \<Rightarrow> Inl e
      | Inr d2 \<Rightarrow> (case index xData1 x of Inl e \<Rightarrow> Inl e
      | Inr d1 \<Rightarrow> (case index xData3 x of Inl e \<Rightarrow> Inl e
      | Inr d3 \<Rightarrow>
     (let h = d0 + d2; w = d1 + d3;
          endX = py_int (offsetX + (c * d1) + (s * d2));
          endY = py_int (offsetY - (s * d1) + (c * d2));
          startX = py_int (real_of_int endX - w);
          startY = py_int (real_of_int endY - h)
      in Inr (startX, startY, endX, endY)))))))"

subsection \<open>generateTextBoundingBoxes (lines 120-152)\<close>

text \<open>
  The function's local state while the two loops run: the caller's lists \<^verbatim>\<open>trust\<close> and
  \<^verbatim>\<open>boxs\<close>, appended in place, and the locals \<^verbatim>\<open>startX, startY, endX, endY\<close>,
  which are bound (together, by the tuple assignment of line 144) only once a cell has
  passed the confidence test: \<open>None\<close> is "not bound yet".
\<close>

type_synonym locals = "real list \<times> box list \<times> box option"

text \<open>\<^verbatim>\<open>range(0, n)\<close>: empty when \<^verbatim>\<open>n\<close> is not positive.\<close>

definition py_range :: "int \<Rightarrow> nat list" where
  "py_range n = [0..<nat n]"

text \<open>The inner loop, lines 141-146, over the remaining column indices.\<close>

fun scan_columns ::
  "real list \<Rightarrow> real list \<Rightarrow> real list \<Rightarrow> real list \<Rightarrow> real list \<Rightarrow> real list \<Rightarrow>
   nat \<Rightarrow> real \<Rightarrow> nat list \<Rightarrow> locals \<Rightarrow> error + locals" where
  "scan_columns dataScores dataAngle xData0 xData1 xData2 xData3 y minimumTrust [] st = Inr st"
| "scan_columns dataScores dataAngle xData0 xData1 xData2 xData3 y minimumTrust (x # xs)
     (trust, boxs, bound) =
     (case index dataScores x of Inl e \<Rightarrow> Inl e
      | Inr sc \<Rightarrow>
          if sc < minimumTrust
          then scan_columns dataScores dataAngle xData0 xData1 xData2 xData3 y minimumTrust xs
                 (trust, boxs, bound)
          else (case geometryCalculations dataAngle xData0 xData1 xData2 xData3 x y of
                  Inl e \<Rightarrow> Inl e
                | Inr b \<Rightarrow>
                    scan_columns dataScores dataAngle xData0 xData1 xData2 xData3 y minimumTrust xs
                      (trust @ [sc], boxs @ [b], Some b)))"

text \<open>The outer loop, lines 138-146, over the remaining row indices.\<close>

fun scan_rows ::
  "tensor4 \<Rightarrow> tensor4 \<Rightarrow> nat list \<Rightarrow> real \<Rightarrow> nat list \<Rightarrow> locals \<Rightarrow> error + locals" where
  "scan_rows scores geometry cols minimumTrust [] st = Inr st"
| "scan_rows scores geometry cols minimumTrust (y # ys) st =
     (case index3 scores 0 0 y of Inl e \<Rightarrow> Inl e
      | Inr dataScores \<Rightarrow>
     (case geometryData geometry y of Inl e \<Rightarrow> Inl e
      | Inr (dataAngle, xData0, xData1, xData2, xData3) \<Rightarrow>
     (case scan_columns dataScores dataAngle xData0 xData1 xData2 xData3 y minimumTrust cols st of
        Inl e \<Rightarrow> Inl e
      | Inr st' \<Rightarrow> scan_rows scores geometry cols minimumTrust ys st')))"

text \<open>
  \<^verbatim>\<open>non_max_suppression\<close> is imported from the third-party package imutils; the function
  takes it as the parameter \<open>nms\<close> (called with the boxes and \<^verbatim>\<open>probs=trust\<close>).
  Line 152 reads the four locals: when no cell was accepted they are unbound and the
  \<^verbatim>\<open>return\<close> raises UnboundLocalError, after the suppression call of line 150.
  When the function raises, the model does not keep the caller's partly appended lists.
\<close>

definition generateTextBoundingBoxes ::
  "(box list \<Rightarrow> real list \<Rightarrow> box list) \<Rightarrow> int \<Rightarrow> tensor4 \<Rightarrow> tensor4 \<Rightarrow> int \<Rightarrow> real \<Rightarrow>
   real list \<Rightarrow> box list \<Rightarrow> error + (int \<times> int \<times> int \<times> int \<times> box list)" where
  "generateTextBoundingBoxes nms lines scores geometry columns minimumTrust trust boxs =
     (case scan_rows scores geometry (py_range columns) minimumTrust (py_range lines)
             (trust, boxs, None) of
        Inl e \<Rightarrow> Inl e
      | Inr (trust', boxs', bound) \<Rightarrow>
          (let detections = nms boxs' trust' in
           case bound of
             None \<Rightarrow> Inl UnboundLocalError
           | Some (startX, startY, endX, endY) \<Rightarrow> Inr (startX, startY, endX, endY, detections)))"

text \<open>
  The shapes the network returns for a grid of \<open>rows\<close> by \<open>columns\<close> cells:
  (1, 1, rows, columns) for \<^verbatim>\<open>scores\<close> and (1, 5, rows, columns) for \<^verbatim>\<open>geometry\<close>.
\<close>

definition plane_shape :: "nat \<Rightarrow> nat \<Rightarrow> real list list \<Rightarrow> bool" where
  "plane_shape rows columns plane \<longleftrightarrow>
     length plane = rows \<and> list_all (\<lambda>row. length row = columns) plane"

definition grid_shape :: "nat \<Rightarrow> nat \<Rightarrow> tensor4 \<Rightarrow> tensor4 \<Rightarrow> bool" where
  "grid_shape rows columns scores geometry \<longleftrightarrow>
     length scores = 1 \<and> length (hd scores) = 1 \<and> list_all (plane_shape rows columns) (hd scores) \<and>
     length geometry = 1 \<and> length (hd geometry) = 5 \<and>
     list_all (plane_shape rows columns) (hd geometry)"

text \<open>
  The candidates (box, score) held by the lists of one state are all held by those of
  another; in both states the two lists run in parallel.
\<close>

definition candidates_within :: "locals \<Rightarrow> locals \<Rightarrow> bool" where
  "candidates_within st2 st1 \<longleftrightarrow>
     (case st1 of (trust1, boxs1, bound1) \<Rightarrow> case st2 of (trust2, boxs2, bound2) \<Rightarrow>
        length trust1 = length boxs1 \<and> length trust2 = length boxs2 \<and>
        set (zip boxs2 trust2) \<subseteq> set (zip boxs1 trust1))"

subsection \<open>extractAndDrawROI (lines 154-186)\<close>

text \<open>
  An image is a list of rows of pixels (\<^verbatim>\<open>img[y][x]\<close>); the pixel type is left open.
  \<^verbatim>\<open>bkpImg.copy()\<close> is the same value: the model passes values, and the in-place drawing
  on \<^verbatim>\<open>bkpImg\<close> is returned as the second component of the result.
\<close>

type_synonym 'px image = "'px list list"

text \<open>
  A bound of a Python/NumPy slice \<^verbatim>\<open>a[lo:hi]\<close> on a sequence of length \<open>n\<close>: a negative
  bound counts from the end, and the result is clamped to \<open>0..n\<close>.
\<close>

definition slice_bound :: "nat \<Rightarrow> int \<Rightarrow> nat" where
  "slice_bound n i = (if i < 0 then nat (max 0 (int n + i)) else min n (nat i))"

definition py_slice :: "'a list \<Rightarrow> int \<Rightarrow> int \<Rightarrow> 'a list" where
  "py_slice xs lo hi =
     (let a = slice_bound (length xs) lo; b = slice_bound (length xs) hi
      in take (b - a) (drop a xs))"

text \<open>\<^verbatim>\<open>img[r0:r1, c0:c1]\<close>\<close>

definition slice2 :: "'px image \<Rightarrow> int \<Rightarrow> int \<Rightarrow> int \<Rightarrow> int \<Rightarrow> 'px image" where
  "slice2 img r0 r1 c0 c1 = map (\<lambda>row. py_slice row c0 c1) (py_slice img r0 r1)"

datatype interpolation = INTER_NEAREST | INTER_LINEAR | INTER_CUBIC | INTER_AREA

text \<open>
  The two OpenCV calls are parameters of the model:
  \<open>rectangle img pt1 pt2 color thickness\<close> is the image after \<^verbatim>\<open>cv2.rectangle\<close> has drawn on
  it, and \<open>resize img fx fy interpolation\<close> is what
  \<^verbatim>\<open>cv2.resize(img, None, fx=.., fy=.., interpolation=..)\<close> returns or raises.
\<close>

type_synonym 'px rectangle_fn =
  "'px image \<Rightarrow> int \<times> int \<Rightarrow> int \<times> int \<Rightarrow> nat \<times> nat \<times> nat \<Rightarrow> nat \<Rightarrow> 'px image"

type_synonym 'px resize_fn =
  "'px image \<Rightarrow> real \<Rightarrow> real \<Rightarrow> interpolation \<Rightarrow> error + 'px image"

text \<open>Lines 177-180: each coordinate times the ratio of its axis, through \<^verbatim>\<open>int\<close>.\<close>

definition rescale :: "real \<Rightarrow> real \<Rightarrow> box \<Rightarrow> box" where
  "rescale proportionW proportionH b =
     (case b of (startX, startY, endX, endY) \<Rightarrow>
        (py_int (real_of_int startX * proportionW),
         py_int (real_of_int startY * proportionH),
         py_int (real_of_int endX * proportionW),
         py_int (real_of_int endY * proportionH)))"

text \<open>
  One pass of the loop body, lines 177-182, on the pair (\<^verbatim>\<open>regionOfInterest\<close>, \<^verbatim>\<open>bkpImg\<close>);
  \<^verbatim>\<open>regionOfInterest\<close> is \<open>None\<close> until the first pass binds it. The crop is cut from
  the copy, the rectangle is drawn on \<^verbatim>\<open>bkpImg\<close> itself.
\<close>

definition roi_step ::
  "'px rectangle_fn \<Rightarrow> 'px image \<Rightarrow> real \<Rightarrow> real \<Rightarrow> int \<Rightarrow>
   'px image option \<times> 'px image \<Rightarrow> box \<Rightarrow> 'px image option \<times> 'px image" where
  "roi_step rectangle imageFromAlter proportionW proportionH margin st b =
     (case rescale proportionW proportionH b of (startX, startY, endX, endY) \<Rightarrow>
      let regionOfInterest =
            slice2 imageFromAlter (startY - margin) (endY + margin) (startX - margin) (endX + margin);
          bkpImg = rectangle (snd st) (startX - margin, startY - margin)
                     (endX + margin, endY + margin) (0, 255, 0) 2
      in (Some regionOfInterest, bkpImg))"

text \<open>
  The result is (what the function returns or raises, \<^verbatim>\<open>bkpImg\<close> after the call). The
  parameters \<^verbatim>\<open>startX, startY, endX, endY\<close> are rebound by the loop before any read.
\<close>

definition extractAndDrawROI ::
  "'px rectangle_fn \<Rightarrow> 'px resize_fn \<Rightarrow> 'px image \<Rightarrow> box list \<Rightarrow> real \<Rightarrow> real \<Rightarrow>
   int \<Rightarrow> int \<Rightarrow> int \<Rightarrow> int \<Rightarrow> int \<Rightarrow> (error + 'px image) \<times> 'px image" where
  "extractAndDrawROI rectangle resize bkpImg detections proportionW proportionH
       startX startY endX endY margin =
     (let imageFromAlter = bkpImg;
          st = foldl (roi_step rectangle imageFromAlter proportionW proportionH margin)
                 (None, bkpImg) detections
      in (case fst st of
            None \<Rightarrow> Inl UnboundLocalError
          | Some regionOfInterest \<Rightarrow> resize regionOfInterest (3 / 2) (3 / 2) INTER_CUBIC,
          snd st))"

subsection \<open>main (src/main.py, lines 19-37)\<close>

datatype outcome = NoTextDetected | EmptyROI | Recognised string

text \<open>
  \<^verbatim>\<open>roi.size\<close>, counted in pixels: it is zero exactly when the array has no element.
\<close>

definition img_size :: "'px image \<Rightarrow> nat" where
  "img_size img = sum_list (map length img)"

text \<open>
  Lines 25-37, from the tuple that \<^verbatim>\<open>generateTextBoundingBoxes\<close> returned. The printed
  messages are the \<open>outcome\<close>; \<open>imageToString\<close> stands for the Tesseract call. The second
  component is the image \<^verbatim>\<open>backup\<close> afterwards.
\<close>

definition main_after_detection ::
  "'px rectangle_fn \<Rightarrow> 'px resize_fn \<Rightarrow> ('px image \<Rightarrow> string \<Rightarrow> string \<Rightarrow> error + string) \<Rightarrow>
   'px image \<Rightarrow> real \<Rightarrow> real \<Rightarrow> int \<times> int \<times> int \<times> int \<times> box list \<Rightarrow>
   (error + outcome) \<times> 'px image" where
  "main_after_detection rectangle resize imageToString backup prop_w prop_h r =
     (case r of (startX, startY, endX, endY, detections) \<Rightarrow>
      if length detections = 0 then (Inr NoTextDetected, backup)
      else
        (case extractAndDrawROI rectangle resize backup detections prop_w prop_h
                startX startY endX endY 5 of
           (Inl e, backup') \<Rightarrow> (Inl e, backup')
         | (Inr roi, backup') \<Rightarrow>
             if img_size roi = 0 then (Inr EmptyROI, backup')
             else (case imageToString roi ''por'' ''--tessdata-dir tessdata'' of
                     Inl e \<Rightarrow> (Inl e, backup')
                   | Inr text \<Rightarrow> (Inr (Recognised text), backup'))))"

text \<open>
  Lines 19-37, from the network's outputs: \<open>lines\<close> and \<open>columns\<close> are
  \<^verbatim>\<open>scores.shape[2:4]\<close>, the lists \<^verbatim>\<open>boxes\<close> and \<^verbatim>\<open>confidences\<close> start empty,
  \<^verbatim>\<open>min_confidence\<close> is 0.9 (line 9).
\<close>

definition main ::
  "(box list \<Rightarrow> real list \<Rightarrow> box list) \<Rightarrow> 'px rectangle_fn \<Rightarrow> 'px resize_fn \<Rightarrow>
   ('px image \<Rightarrow> string \<Rightarrow> string \<Rightarrow> error + string) \<Rightarrow>
   'px image \<Rightarrow> real \<Rightarrow> real \<Rightarrow> tensor4 \<Rightarrow> tensor4 \<Rightarrow> int \<Rightarrow> int \<Rightarrow>
   (error + outcome) \<times> 'px image" where
  "main nms rectangle resize imageToString backup prop_w prop_h scores geometry lines columns =
     (let min_confidence = 9 / 10 in
      case generateTextBoundingBoxes nms lines scores geometry columns min_confidence [] [] of
        Inl e \<Rightarrow> (Inl e, backup)
      | Inr r \<Rightarrow> main_after_detection rectangle resize imageToString backup prop_w prop_h r)"

subsection \<open>Non-max suppression\<close>

text \<open>
  Modelled from the spec: the Non-Max Suppression Engine of section 4.4. The function the
  code calls, \<^verbatim>\<open>imutils.object_detection.non_max_suppression\<close>, belongs to a third-party
  package and is not under src/. The spec leaves the overlap metric and the threshold open,
  so both are parameters: \<open>overlap kept candidate\<close> is the overlap ratio of a remaining box
  with the box just kept. Step 2 is the stable sort by descending score, step 3 keeps the
  first remaining box and removes every remaining box whose overlap with it exceeds the
  threshold.
\<close>

fun suppress :: "(box \<Rightarrow> box \<Rightarrow> real) \<Rightarrow> real \<Rightarrow> box list \<Rightarrow> box list" where
  "suppress overlap thr [] = []"
| "suppress overlap thr (b # bs) =
     b # suppress overlap thr (filter (\<lambda>c. \<not> thr < overlap b c) bs)"

definition non_max_suppression ::
  "(box \<Rightarrow> box \<Rightarrow> real) \<Rightarrow> real \<Rightarrow> box list \<Rightarrow> real list \<Rightarrow> box list" where
  "non_max_suppression overlap thr boxes probs =
     suppress overlap thr (map fst (sort_key (\<lambda>bp. - snd bp) (zip boxes probs)))"

text \<open>
  Modelled from the spec: intersection-over-union, the first of the two metrics section 4.4
  names, on the box extents \<open>endX - startX\<close> and \<open>endY - startY\<close>; a pair of boxes
  whose union has no area overlaps only when the two are identical (the spec's zero-area
  policy).
\<close>

definition box_area :: "box \<Rightarrow> int" where
  "box_area b = (case b of (startX, startY, endX, endY) \<Rightarrow> (endX - startX) * (endY - startY))"

definition intersection_area :: "box \<Rightarrow> box \<Rightarrow> int" where
  "intersection_area a b =
     (case a of (aStartX, aStartY, aEndX, aEndY) \<Rightarrow>
      case b of (bStartX, bStartY, bEndX, bEndY) \<Rightarrow>
        max 0 (min aEndX bEndX - max aStartX bStartX) *
        max 0 (min aEndY bEndY - max aStartY bStartY))"

definition iou :: "box \<Rightarrow> box \<Rightarrow> real" where
  "iou a b =
     (let i = intersection_area a b; u = box_area a + box_area b - i
      in if u = 0 then (if a = b then 1 else 0) else real_of_int i / real_of_int u)"

subsection \<open>The crop the spec describes\<close>

text \<open>
  Section 4.5 in the spec's words: the rectangle of rows \<open>r0..r1\<close> and columns
  \<open>c0..c1\<close> (end exclusive) is clipped to the image, \<open>[0, height)\<close> by \<open>[0, width)\<close>,
  and the image is cropped to what is left. \<open>clip n i\<close> clamps a coordinate into \<open>0..n\<close>.
\<close>

definition clip :: "nat \<Rightarrow> int \<Rightarrow> nat" where
  "clip n i = nat (max 0 (min (int n) i))"

definition clipped_range :: "'a list \<Rightarrow> int \<Rightarrow> int \<Rightarrow> 'a list" where
  "clipped_range xs lo hi =
     take (clip (length xs) hi - clip (length xs) lo) (drop (clip (length xs) lo) xs)"

definition crop_clipped :: "'px image \<Rightarrow> int \<Rightarrow> int \<Rightarrow> int \<Rightarrow> int \<Rightarrow> 'px image" where
  "crop_clipped img r0 r1 c0 c1 = map (\<lambda>row. clipped_range row c0 c1) (clipped_range img r0 r1)"

subsection \<open>Stand-ins for the OpenCV calls\<close>

text \<open>
  The theorems below hold for every drawing and resizing function. To run the model on
  concrete images, two simple instances: \<open>outline_rectangle\<close> paints the colour on the
  pixels of the image that lie on the outline through the two corners (the pixels
  \<^verbatim>\<open>cv2.rectangle\<close> paints for every positive thickness; a thickness above 1 widens the
  line around them), and \<open>nearest_resize\<close> raises on an empty source, as
  \<^verbatim>\<open>cv2.resize\<close> does, and otherwise scales by pixel replication (the interpolated
  values of \<^verbatim>\<open>INTER_CUBIC\<close> are floating-point computations of OpenCV).
\<close>

definition on_outline :: "int \<times> int \<Rightarrow> int \<times> int \<Rightarrow> int \<Rightarrow> int \<Rightarrow> bool" where
  "on_outline pt1 pt2 x y =
     (case pt1 of (x1, y1) \<Rightarrow> case pt2 of (x2, y2) \<Rightarrow>
      min x1 x2 \<le> x \<and> x \<le> max x1 x2 \<and> min y1 y2 \<le> y \<and> y \<le> max y1 y2 \<and>
      (x = x1 \<or> x = x2 \<or> y = y1 \<or> y = y2))"

definition outline_rectangle :: "(nat \<times> nat \<times> nat) rectangle_fn" where
  "outline_rectangle img pt1 pt2 color thickness =
     map (\<lambda>(y, row). map (\<lambda>(x, px). if on_outline pt1 pt2 (int x) (int y) then color else px)
                        (enumerate 0 row))
       (enumerate 0 img)"

definition nearest_resize :: "'px resize_fn" where
  "nearest_resize img fx fy interpolation =
     (if img_size img = 0 then Inl CvError
      else
        (let h = length img; w = length (hd img);
             h' = nat (round (real h * fy)); w' = nat (round (real w * fx))
         in Inr (map (\<lambda>i. map (\<lambda>j. img ! min (h - 1) (nat \<lfloor>real i / fy\<rfloor>)
                                        ! min (w - 1) (nat \<lfloor>real j / fx\<rfloor>)) [0..<w'])
                   [0..<h'])))"

section \<open>Properties\<close>

subsection \<open>Conversion to int and indexing\<close>

lemma py_int_le: "r \<le> real_of_int n \<Longrightarrow> py_int r \<le> n"
  unfolding py_int_def by (auto simp: floor_le_iff ceiling_le_iff)

lemma py_int_toward_zero:
  "\<bar>real_of_int (py_int r)\<bar> \<le> \<bar>r\<bar> \<and> \<bar>r - real_of_int (py_int r)\<bar> < 1"
  unfolding py_int_def by (auto; linarith)

lemma index_in_range: "i < length xs \<Longrightarrow> index xs i = Inr (xs ! i)"
  by (simp add: index_def)

subsection \<open>The box of one cell\<close>



text \<open>
  C7, as stated, fails: the distances are not checked, and a negative width
  \<open>xData1[x] + xData3[x]\<close> puts \<open>startX\<close> to the right of \<open>endX\<close>. A cell with score 1,
  angle 0 and \<open>xData1 = -5\<close> is accepted at threshold 0.9 and its box
  \<open>(0, 0, -5, 0)\<close> is appended.
\<close>

theorem geometryCalculations_negative_width:
  "scan_rows [[[[1]]]] [[[[0]], [[-5]], [[0]], [[0]], [[0]]]] (py_range 1) (9 / 10)
     (py_range 1) ([], [], None) = Inr ([1], [(0, 0, -5, 0)], Some (0, 0, -5, 0)) \<and>
   \<not> ((0::int) \<le> -5)"
  by (simp add: py_range_def index3_def index_def geometryData_def geometryCalculations_def
      py_int_def)

text \<open>
  C7, amended. Every box that \<open>geometryCalculations\<close> returns for a cell whose width
  \<open>xData1[x] + xData3[x]\<close> and height \<open>xData0[x] + xData2[x]\<close> are not negative has
  \<open>startX \<le> endX\<close> and \<open>startY \<le> endY\<close>, whatever the angle.
\<close>

theorem geometryCalculations_ordered:
  assumes "geometryCalculations angleData xData0 xData1 xData2 xData3 x y =
             Inr (startX, startY, endX, endY)"
    and "0 \<le> xData1 ! x + xData3 ! x" and "0 \<le> xData0 ! x + xData2 ! x"
  shows "startX \<le> endX \<and> startY \<le> endY"
  using assms
  by (auto simp: geometryCalculations_def index_def Let_def split: if_splits intro!: py_int_le)

theorem geometryCalculations_ordered_witness:
  "geometryCalculations [0] [2] [2] [3] [4] 0 0 = Inr (- 4, - 2, 2, 3) \<and>
   (0 :: real) \<le> [2] ! 0 + [4] ! 0 \<and> (0 :: real) \<le> [2] ! 0 + [3] ! 0 \<and>
   (- 4 :: int) \<le> 2 \<and> (- 2 :: int) \<le> 3"
  using geometryCalculations_ordered [of "[0]" "[2]" "[2]" "[3]" "[4]" 0 0 "- 4" "- 2" 2 3]
  by (simp add: geometryCalculations_def index_def py_int_def)

subsection \<open>The candidate collector\<close>

lemma geometryCalculations_returns:
  assumes "x < length angleData" "x < length xData0" "x < length xData1"
    "x < length xData2" "x < length xData3"
  shows "\<exists>b. geometryCalculations angleData xData0 xData1 xData2 xData3 x y = Inr b"
  using assms by (simp add: geometryCalculations_def index_in_range Let_def)

text \<open>
  One row, two thresholds: on rows long enough for the column indices both scans return,
  and the scan with the higher threshold keeps its candidates within those of the other.
\<close>

lemma scan_columns_monotone:
  assumes "t1 \<le> t2"
    and "\<forall>x\<in>set xs. x < length dataScores \<and> x < length dataAngle \<and> x < length xData0 \<and>
           x < length xData1 \<and> x < length xData2 \<and> x < length xData3"
    and "candidates_within st2 st1"
  shows "\<exists>st1' st2'.
           scan_columns dataScores dataAngle xData0 xData1 xData2 xData3 y t1 xs st1 = Inr st1' \<and>
           scan_columns dataScores dataAngle xData0 xData1 xData2 xData3 y t2 xs st2 = Inr st2' \<and>
           candidates_within st2' st1'"
  using assms(2,3)
proof (induction xs arbitrary: st1 st2)
  case Nil
  then show ?case by simp
next
  case (Cons x xs)
  obtain trust1 boxs1 bound1 where st1: "st1 = (trust1, boxs1, bound1)" by (cases st1)
  obtain trust2 boxs2 bound2 where st2: "st2 = (trust2, boxs2, bound2)" by (cases st2)
  from Cons.prems(1) have x: "index dataScores x = Inr (dataScores ! x)"
    by (simp add: index_in_range)
  from Cons.prems(1) obtain b where
    b: "geometryCalculations dataAngle xData0 xData1 xData2 xData3 x y = Inr b"
    using geometryCalculations_returns [of x dataAngle xData0 xData1 xData2 xData3 y] by auto
  from Cons.prems(1) have rest: "\<forall>x\<in>set xs. x < length dataScores \<and> x < length dataAngle \<and>
     x < length xData0 \<and> x < length xData1 \<and> x < length xData2 \<and> x < length xData3"
    by simp
  from Cons.prems(2) have len: "length trust1 = length boxs1" "length trust2 = length boxs2"
    and sub: "set (zip boxs2 trust2) \<subseteq> set (zip boxs1 trust1)"
    by (simp_all add: candidates_within_def st1 st2)
  let ?sc = "dataScores ! x"
  consider (skip) "?sc < t1" | (one) "t1 \<le> ?sc" "?sc < t2" | (both) "t2 \<le> ?sc"
    by linarith
  then show ?case
  proof cases
    case skip
    with \<open>t1 \<le> t2\<close> have "?sc < t2" by simp
    with skip show ?thesis
      using Cons.IH [OF rest Cons.prems(2)] by (simp add: st1 st2 x)
  next
    case one
    have "candidates_within (trust2, boxs2, bound2) (trust1 @ [?sc], boxs1 @ [b], Some b)"
      using len sub by (auto simp: candidates_within_def)
    from Cons.IH [OF rest this] one show ?thesis
      by (simp add: st1 st2 x b)
  next
    case both
    with \<open>t1 \<le> t2\<close> have t1: "\<not> ?sc < t1" by simp
    have "candidates_within (trust2 @ [?sc], boxs2 @ [b], Some b)
            (trust1 @ [?sc], boxs1 @ [b], Some b)"
      using len sub by (auto simp: candidates_within_def)
    from Cons.IH [OF rest this] both t1 show ?thesis
      by (simp add: st1 st2 x b)
  qed
qed

lemma plane_row:
  "plane_shape rows columns plane \<Longrightarrow> y < rows \<Longrightarrow>
   index plane y = Inr (plane ! y) \<and> length (plane ! y) = columns"
  by (simp add: plane_shape_def index_def list_all_length)

lemma grid_shape_scores:
  assumes "grid_shape rows columns scores geometry" "y < rows"
  shows "\<exists>dataScores. index3 scores 0 0 y = Inr dataScores \<and> length dataScores = columns"
proof -
  from assms(1) obtain plane where s: "scores = [[plane]]" and p: "plane_shape rows columns plane"
    by (auto simp: grid_shape_def length_Suc_conv)
  show ?thesis using plane_row [OF p assms(2)] by (simp add: s index3_def index_def)
qed

lemma grid_shape_geometry:
  assumes "grid_shape rows columns scores geometry" "y < rows"
  shows "\<exists>dataAngle xData0 xData1 xData2 xData3.
           geometryData geometry y = Inr (dataAngle, xData0, xData1, xData2, xData3) \<and>
           length dataAngle = columns \<and> length xData0 = columns \<and> length xData1 = columns \<and>
           length xData2 = columns \<and> length xData3 = columns"
proof -
  from assms(1) obtain planes where g: "geometry = [planes]" and l: "length planes = 5"
    and p: "list_all (plane_shape rows columns) planes"
    by (auto simp: grid_shape_def length_Suc_conv)
  from l obtain p0 p1 p2 p3 p4 where ps: "planes = [p0, p1, p2, p3, p4]"
    by (auto simp: length_Suc_conv eval_nat_numeral)
  from p ps have "plane_shape rows columns p0" "plane_shape rows columns p1"
    "plane_shape rows columns p2" "plane_shape rows columns p3" "plane_shape rows columns p4"
    by simp_all
  from this [THEN plane_row, OF assms(2)] show ?thesis
    by (simp add: g ps geometryData_def index3_def index_def)
qed

lemma scan_rows_monotone:
  assumes "t1 \<le> t2" and "grid_shape rows columns scores geometry"
    and "\<forall>y\<in>set ys. y < rows" and "\<forall>x\<in>set xs. x < columns"
    and "candidates_within st2 st1"
  shows "\<exists>st1' st2'.
           scan_rows scores geometry xs t1 ys st1 = Inr st1' \<and>
           scan_rows scores geometry xs t2 ys st2 = Inr st2' \<and>
           candidates_within st2' st1'"
  using assms(3,5)
proof (induction ys arbitrary: st1 st2)
  case Nil
  then show ?case by simp
next
  case (Cons y ys)
  from Cons.prems(1) have y: "y < rows" and rest: "\<forall>y\<in>set ys. y < rows" by simp_all
  from grid_shape_scores [OF assms(2) y] obtain dataScores where
    s: "index3 scores 0 0 y = Inr dataScores" and ls: "length dataScores = columns" by blast
  from grid_shape_geometry [OF assms(2) y] obtain dataAngle xData0 xData1 xData2 xData3 where
    g: "geometryData geometry y = Inr (dataAngle, xData0, xData1, xData2, xData3)"
    and lg: "length dataAngle = columns" "length xData0 = columns" "length xData1 = columns"
      "length xData2 = columns" "length xData3 = columns" by blast
  have "\<forall>x\<in>set xs. x < length dataScores \<and> x < length dataAngle \<and> x < length xData0 \<and>
           x < length xData1 \<and> x < length xData2 \<and> x < length xData3"
    using assms(4) ls lg by simp
  from scan_columns_monotone [OF assms(1) this Cons.prems(2), of y] obtain st1' st2' where
    c1: "scan_columns dataScores dataAngle xData0 xData1 xData2 xData3 y t1 xs st1 = Inr st1'"
    and c2: "scan_columns dataScores dataAngle xData0 xData1 xData2 xData3 y t2 xs st2 = Inr st2'"
    and w: "candidates_within st2' st1'" by blast
  from Cons.IH [OF rest w] show ?case
    by (simp add: s g c1 c2)
qed

text \<open>
  C6. On score and geometry maps of the grid's shape, and for thresholds \<open>t1 < t2\<close>, the
  two loops return with both thresholds, starting from empty lists, and every candidate
  (box, score) collected with \<open>t2\<close> is also collected with \<open>t1\<close>.
\<close>

theorem candidates_threshold_monotone:
  assumes "t1 < t2" and "grid_shape (nat lines) (nat columns) scores geometry"
  shows "\<exists>trust1 boxs1 bound1 trust2 boxs2 bound2.
           scan_rows scores geometry (py_range columns) t1 (py_range lines) ([], [], None) =
             Inr (trust1, boxs1, bound1) \<and>
           scan_rows scores geometry (py_range columns) t2 (py_range lines) ([], [], None) =
             Inr (trust2, boxs2, bound2) \<and>
           set (zip boxs2 trust2) \<subseteq> set (zip boxs1 trust1)"
proof -
  have le: "t1 \<le> t2" using assms(1) by simp
  have w: "candidates_within ([], [], None) ([], [], None)"
    by (simp add: candidates_within_def)
  have ys: "\<forall>y\<in>set (py_range lines). y < nat lines"
    and xs: "\<forall>x\<in>set (py_range columns). x < nat columns"
    by (simp_all add: py_range_def)
  from scan_rows_monotone [OF le assms(2) ys xs w] obtain st1' st2' where
    "scan_rows scores geometry (py_range columns) t1 (py_range lines) ([], [], None) = Inr st1'"
    "scan_rows scores geometry (py_range columns) t2 (py_range lines) ([], [], None) = Inr st2'"
    "candidates_within st2' st1'" by blast
  then show ?thesis
    by (cases st1'; cases st2') (auto simp: candidates_within_def)
qed

theorem candidates_threshold_monotone_witness:
  "(4 / 10 :: real) < 9 / 10 \<and>
   grid_shape (nat 1) (nat 2) [[[[95 / 100, 1 / 2]]]]
     [[[[0, 0]], [[0, 0]], [[0, 0]], [[0, 0]], [[0, 0]]]] \<and>
   scan_rows [[[[95 / 100, 1 / 2]]]] [[[[0, 0]], [[0, 0]], [[0, 0]], [[0, 0]], [[0, 0]]]]
     (py_range 2) (4 / 10) (py_range 1) ([], [], None) =
     Inr ([95 / 100, 1 / 2], [(0, 0, 0, 0), (4, 0, 4, 0)], Some (4, 0, 4, 0)) \<and>
   scan_rows [[[[95 / 100, 1 / 2]]]] [[[[0, 0]], [[0, 0]], [[0, 0]], [[0, 0]], [[0, 0]]]]
     (py_range 2) (9 / 10) (py_range 1) ([], [], None) =
     Inr ([95 / 100], [(0, 0, 0, 0)], Some (0, 0, 0, 0))"
  using candidates_threshold_monotone [of "4 / 10" "9 / 10" 1 2 "[[[[95 / 100, 1 / 2]]]]"
       "[[[[0, 0]], [[0, 0]], [[0, 0]], [[0, 0]], [[0, 0]]]]"]
  by (simp add: grid_shape_def plane_shape_def py_range_def upt_conv_Cons index3_def index_def
      geometryData_def geometryCalculations_def py_int_def)

text \<open>
  C1 fails on the code. With the single score 0.95 and the threshold 0.96 no cell is
  accepted, the locals of line 144 are never bound, and the \<^verbatim>\<open>return\<close> of line 152
  raises UnboundLocalError whatever the suppression function returns; \<open>main\<close>, whose
  threshold is 0.9, ends the same way on the single score 0.5, before its test on the
  number of detections.
\<close>

theorem generateTextBoundingBoxes_no_candidate_raises:
  "generateTextBoundingBoxes nms 1 [[[[95 / 100]]]] [[[[0]], [[0]], [[0]], [[0]], [[0]]]] 1
     (96 / 100) [] [] = Inl UnboundLocalError
   \<and> main nms rectangle resize imageToString backup prop_w prop_h
        [[[[1 / 2]]]] [[[[0]], [[0]], [[0]], [[0]], [[0]]]] 1 1 = (Inl UnboundLocalError, backup)"
  by (simp add: main_def generateTextBoundingBoxes_def py_range_def index3_def index_def
      geometryData_def)

subsection \<open>Non-max suppression\<close>

lemma set_suppress: "set (suppress overlap thr bs) \<subseteq> set bs"
  by (induction overlap thr bs rule: suppress.induct) auto

lemma suppress_pairwise:
  "sorted_wrt (\<lambda>kept c. overlap kept c \<le> thr) (suppress overlap thr bs)"
proof (induction overlap thr bs rule: suppress.induct)
  case (1 overlap thr)
  then show ?case by simp
next
  case (2 overlap thr b bs)
  have "\<forall>c\<in>set (suppress overlap thr (filter (\<lambda>c. \<not> thr < overlap b c) bs)). overlap b c \<le> thr"
    using set_suppress [of overlap thr "filter (\<lambda>c. \<not> thr < overlap b c) bs"] by auto
  with 2 show ?case by simp
qed

text \<open>
  C4, as stated, fails at the boundary: suppression removes a box whose overlap with a kept
  box exceeds the threshold, so two boxes whose overlap equals the threshold both
  survive. Here the intersection-over-union is exactly 1/2, the threshold.
\<close>

theorem non_max_suppression_overlap_at_threshold:
  "non_max_suppression iou (1 / 2) [(0, 0, 2, 2), (0, 0, 2, 1)] [9 / 10, 8 / 10] =
     [(0, 0, 2, 2), (0, 0, 2, 1)] \<and>
   \<not> iou (0, 0, 2, 2) (0, 0, 2, 1) < 1 / 2"
  by (simp add: non_max_suppression_def iou_def box_area_def intersection_area_def)

text \<open>
  C4, amended. The output of non-max suppression is a subset of its input boxes, and for
  any two boxes of the output the overlap of the one kept later with the one kept earlier
  does not exceed the threshold.
\<close>

theorem non_max_suppression_subset_overlap:
  "set (non_max_suppression overlap thr boxes probs) \<subseteq> set boxes \<and>
   (\<forall>i j. i < j \<and> j < length (non_max_suppression overlap thr boxes probs) \<longrightarrow>
      overlap (non_max_suppression overlap thr boxes probs ! i)
              (non_max_suppression overlap thr boxes probs ! j) \<le> thr)"
proof
  have "set (map fst (sort_key (\<lambda>bp. - snd bp) (zip boxes probs))) \<subseteq> set boxes"
    by (auto dest: set_zip_leftD)
  with set_suppress show "set (non_max_suppression overlap thr boxes probs) \<subseteq> set boxes"
    unfolding non_max_suppression_def by blast
  show "\<forall>i j. i < j \<and> j < length (non_max_suppression overlap thr boxes probs) \<longrightarrow>
      overlap (non_max_suppression overlap thr boxes probs ! i)
              (non_max_suppression overlap thr boxes probs ! j) \<le> thr"
    using suppress_pairwise [of overlap thr "map fst (sort_key (\<lambda>bp. - snd bp) (zip boxes probs))"]
    unfolding non_max_suppression_def sorted_wrt_iff_nth_less by blast
qed

theorem non_max_suppression_subset_overlap_witness:
  "(0::nat) < 1 \<and>
   1 < length (non_max_suppression iou (1 / 2) [(0, 0, 2, 2), (0, 0, 2, 1)] [9 / 10, 8 / 10]) \<and>
   iou (non_max_suppression iou (1 / 2) [(0, 0, 2, 2), (0, 0, 2, 1)] [9 / 10, 8 / 10] ! 0)
       (non_max_suppression iou (1 / 2) [(0, 0, 2, 2), (0, 0, 2, 1)] [9 / 10, 8 / 10] ! 1)
     \<le> 1 / 2 \<and>
   set (non_max_suppression iou (1 / 2) [(0, 0, 2, 2), (0, 0, 2, 1)] [9 / 10, 8 / 10]) \<subseteq>
     set [(0, 0, 2, 2), (0, 0, 2, 1)]"
  using non_max_suppression_subset_overlap
    [of iou "1 / 2" "[(0, 0, 2, 2), (0, 0, 2, 1)]" "[9 / 10, 8 / 10]"]
  by (simp add: non_max_suppression_def iou_def box_area_def intersection_area_def)

subsection \<open>ROI extraction\<close>

text \<open>The loop of lines 176-182 after its last pass, and what it has drawn.\<close>

lemma foldl_roi_step_snoc:
  "foldl (roi_step rectangle img pw ph m) st (ds @ [b]) =
     (case rescale pw ph b of (sx, sy, ex, ey) \<Rightarrow>
        (Some (slice2 img (sy - m) (ey + m) (sx - m) (ex + m)),
         rectangle (snd (foldl (roi_step rectangle img pw ph m) st ds))
           (sx - m, sy - m) (ex + m, ey + m) (0, 255, 0) 2))"
  by (simp add: roi_step_def Let_def split: prod.splits)

lemma snd_foldl_roi_step:
  "snd (foldl (roi_step rectangle img0 pw ph m) st ds) =
     foldl (\<lambda>im b. case rescale pw ph b of (sx, sy, ex, ey) \<Rightarrow>
              rectangle im (sx - m, sy - m) (ex + m, ey + m) (0, 255, 0) 2) (snd st) ds"
  by (induction ds arbitrary: st) (auto simp: roi_step_def Let_def split: prod.splits)

lemma fst_foldl_roi_step_indep:
  "fst (foldl (roi_step rectangle img0 pw ph m) st ds) =
   fst (foldl (roi_step rectangle' img0 pw ph m) (fst st, im') ds)"
  by (induction ds arbitrary: st im') (auto simp: roi_step_def Let_def split: prod.splits)

lemma extractAndDrawROI_snoc:
  "extractAndDrawROI rectangle resize img (ds @ [b]) pw ph a0 b0 c0 d0 m =
     (case rescale pw ph b of (sx, sy, ex, ey) \<Rightarrow>
        (resize (slice2 img (sy - m) (ey + m) (sx - m) (ex + m)) (3 / 2) (3 / 2) INTER_CUBIC,
         rectangle (snd (foldl (roi_step rectangle img pw ph m) (None, img) ds))
           (sx - m, sy - m) (ex + m, ey + m) (0, 255, 0) 2))"
  unfolding extractAndDrawROI_def Let_def foldl_roi_step_snoc
  by (simp split: prod.splits)

text \<open>
  C3. With more than one detection the function returns one value: what
  \<^verbatim>\<open>cv2.resize\<close> with \<open>fx = fy = 1.5\<close> and cubic interpolation gives for the crop of
  the last detection; the crops of the earlier ones are overwritten.
\<close>

theorem extractAndDrawROI_last_crop:
  assumes "1 < length detections"
  shows "fst (extractAndDrawROI rectangle resize bkpImg detections proportionW proportionH
                startX startY endX endY margin) =
         (case rescale proportionW proportionH (last detections) of (sx, sy, ex, ey) \<Rightarrow>
            resize (slice2 bkpImg (sy - margin) (ey + margin) (sx - margin) (ex + margin))
              (3 / 2) (3 / 2) INTER_CUBIC)"
proof -
  from assms have "detections \<noteq> []" by auto
  then obtain ds b where d: "detections = ds @ [b]"
    by (metis append_butlast_last_id)
  show ?thesis unfolding d extractAndDrawROI_snoc by (simp split: prod.splits)
qed

theorem extractAndDrawROI_last_crop_witness:
  "1 < length [(0, 0, 1, 1), (1, 1, 2, 2 :: int)] \<and>
   fst (extractAndDrawROI outline_rectangle nearest_resize
          [[(1, 1, 1), (2, 2, 2)], [(3, 3, 3), (4, 4, 4)]]
          [(0, 0, 1, 1), (1, 1, 2, 2)] 1 1 0 0 0 0 0) =
   nearest_resize [[(4, 4, 4)]] (3 / 2) (3 / 2) INTER_CUBIC"
  using extractAndDrawROI_last_crop [of "[(0, 0, 1, 1), (1, 1, 2, 2)]" outline_rectangle
      nearest_resize "[[(1, 1, 1), (2, 2, 2)], [(3, 3, 3), (4, 4, 4)]]" 1 1 0 0 0 0 0]
  by (simp add: rescale_def py_int_def slice2_def py_slice_def slice_bound_def)


lemma slice_bound_clip: "0 \<le> i \<Longrightarrow> slice_bound n i = clip n i"
  unfolding slice_bound_def clip_def by (simp add: min_def max_def) linarith

lemma py_slice_clipped:
  "0 \<le> lo \<Longrightarrow> 0 \<le> hi \<Longrightarrow> py_slice xs lo hi = clipped_range xs lo hi"
  by (simp add: py_slice_def clipped_range_def slice_bound_clip Let_def)

lemma slice2_clipped:
  "0 \<le> r0 \<Longrightarrow> 0 \<le> r1 \<Longrightarrow> 0 \<le> c0 \<Longrightarrow> 0 \<le> c1 \<Longrightarrow>
   slice2 img r0 r1 c0 c1 = crop_clipped img r0 r1 c0 c1"
  by (simp add: slice2_def crop_clipped_def py_slice_clipped)

text \<open>
  C2, as stated, fails: there is no clipping step, and a slice bound below zero counts
  from the opposite edge. On a 2 by 2 image the box (1, 1, 2, 2) with margin 2 has the
  expanded rectangle (-1, -1, 4, 4); the slice \<^verbatim>\<open>[-1:4, -1:4]\<close> is the single pixel of
  the last row and column, where the rectangle clipped to the image is the whole image.
\<close>

theorem extractAndDrawROI_negative_start_not_clipped:
  "fst (extractAndDrawROI outline_rectangle nearest_resize
          [[(1, 1, 1), (2, 2, 2)], [(3, 3, 3), (4, 4, 4)]] [(1, 1, 2, 2)] 1 1 0 0 0 0 2) =
     nearest_resize [[(4, 4, 4)]] (3 / 2) (3 / 2) INTER_CUBIC
   \<and> crop_clipped [[(1, 1, 1), (2, 2, 2)], [(3, 3, 3), (4, 4, 4 :: nat)]]
       (1 - 2) (2 + 2) (1 - 2) (2 + 2) =
     [[(1, 1, 1), (2, 2, 2)], [(3, 3, 3), (4, 4, 4)]]"
  by (simp add: extractAndDrawROI_def roi_step_def rescale_def py_int_def slice2_def py_slice_def
      slice_bound_def crop_clipped_def clipped_range_def clip_def)

text \<open>
  C2, amended. When none of the four bounds of the rescaled, margin-expanded rectangle is
  negative, the crop of the last detection is the crop of that rectangle clipped to the
  image: a bound past the right or the bottom edge is cut at the edge by the slice itself.
\<close>

theorem extractAndDrawROI_crop_clipped:
  assumes "rescale proportionW proportionH b = (sx, sy, ex, ey)"
    and "0 \<le> sx - margin" and "0 \<le> sy - margin" and "0 \<le> ex + margin" and "0 \<le> ey + margin"
  shows "fst (extractAndDrawROI rectangle resize bkpImg (ds @ [b]) proportionW proportionH
                startX startY endX endY margin) =
         resize (crop_clipped bkpImg (sy - margin) (ey + margin) (sx - margin) (ex + margin))
           (3 / 2) (3 / 2) INTER_CUBIC"
  unfolding extractAndDrawROI_snoc using assms by (simp add: slice2_clipped)

theorem extractAndDrawROI_crop_clipped_witness:
  "rescale 1 1 (1, 1, 2, 2) = (1, 1, 2, 2) \<and> (0::int) \<le> 1 - 1 \<and> (0::int) \<le> 2 + 1 \<and>
   fst (extractAndDrawROI outline_rectangle nearest_resize
          [[(1, 1, 1), (2, 2, 2)], [(3, 3, 3), (4, 4, 4)]] ([] @ [(1, 1, 2, 2)]) 1 1 0 0 0 0 1) =
   nearest_resize [[(1, 1, 1), (2, 2, 2)], [(3, 3, 3), (4, 4, 4)]] (3 / 2) (3 / 2) INTER_CUBIC"
  using extractAndDrawROI_crop_clipped [of 1 1 "(1, 1, 2, 2)" 1 1 2 2 1 outline_rectangle
       nearest_resize "[[(1, 1, 1), (2, 2, 2)], [(3, 3, 3), (4, 4, 4)]]" "[]" 0 0 0 0]
  by (simp add: rescale_def py_int_def crop_clipped_def clipped_range_def clip_def)

text \<open>
  C9, as stated, fails: line 182 draws on \<^verbatim>\<open>bkpImg\<close> itself. After the call on a black
  2 by 2 image with the detection (0, 0, 1, 1) the image is no longer the one passed in.
\<close>

theorem extractAndDrawROI_changes_input:
  "snd (extractAndDrawROI outline_rectangle nearest_resize
          [[(0, 0, 0), (0, 0, 0)], [(0, 0, 0), (0, 0, 0)]] [(0, 0, 1, 1)] 1 1 0 0 0 0 0)
   \<noteq> [[(0, 0, 0), (0, 0, 0)], [(0, 0, 0), (0, 0, 0)]]"
  by (simp add: extractAndDrawROI_def roi_step_def rescale_def py_int_def outline_rectangle_def
      on_outline_def)

text \<open>
  C9, amended. After the call \<^verbatim>\<open>bkpImg\<close> is the input image with one green rectangle of
  thickness 2 drawn for every detection, in order, around its rescaled, margin-expanded
  box; the value returned is cut from the copy taken before the loop and does not depend
  on what is drawn.
\<close>

theorem extractAndDrawROI_draws_on_input:
  "snd (extractAndDrawROI rectangle resize bkpImg detections proportionW proportionH
          startX startY endX endY margin) =
     foldl (\<lambda>img b. case rescale proportionW proportionH b of (sx, sy, ex, ey) \<Rightarrow>
              rectangle img (sx - margin, sy - margin) (ex + margin, ey + margin) (0, 255, 0) 2)
       bkpImg detections
   \<and> fst (extractAndDrawROI rectangle resize bkpImg detections proportionW proportionH
          startX startY endX endY margin) =
     fst (extractAndDrawROI (\<lambda>img pt1 pt2 color thickness. img) resize bkpImg detections
          proportionW proportionH startX startY endX endY margin)"
  unfolding extractAndDrawROI_def Let_def
  using snd_foldl_roi_step [of rectangle bkpImg proportionW proportionH margin "(None, bkpImg)"
      detections]
    fst_foldl_roi_step_indep [of rectangle bkpImg proportionW proportionH margin "(None, bkpImg)"
      detections "\<lambda>img pt1 pt2 color thickness. img" bkpImg]
  by simp


end
